theory Spec2Isabelle
  imports Complex_Main
begin

section \<open>JavaScript values used by the session classes\<close>

text \<open>
  The two classes \<^verbatim>\<open>SyncProtocol\<close> (sync-protocol.js) and \<^verbatim>\<open>UpgradeProtocol\<close>
  (the minimal variant) read \<^verbatim>\<open>opts.timeout\<close>, \<^verbatim>\<open>opts.deviceName\<close> and
  \<^verbatim>\<open>opts.deviceType\<close> without checking their type, so these are JavaScript values.
  The primitives are modelled: undefined, null, booleans, numbers and strings. Numbers are
  the integer-valued doubles (\<open>JNum n\<close> is the double of value \<open>n\<close>) and NaN; fractions,
  infinities, the negative zero and BigInts are not represented.
\<close>

datatype jsval = JUndefined | JNull | JBool bool | JNum int | JNaN | JStr string

text \<open>ToBoolean: the falsy values are undefined, null, false, 0, NaN and the empty string.\<close>

fun truthy :: "jsval \<Rightarrow> bool" where
  "truthy JUndefined = False"
| "truthy JNull = False"
| "truthy (JBool b) = b"
| "truthy (JNum n) = (n \<noteq> 0)"
| "truthy JNaN = False"
| "truthy (JStr s) = (s \<noteq> [])"

text \<open>The operator \<^verbatim>\<open>a || b\<close>.\<close>

definition js_or :: "jsval \<Rightarrow> jsval \<Rightarrow> jsval" where
  "js_or a b = (if truthy a then a else b)"

text \<open>
  The delay handed to the timer module. The timeout watchdog is given \<^verbatim>\<open>this.timeoutMs\<close>
  as it is stored (\<open>Given\<close>); the heartbeat watchdog is given the number
  \<^verbatim>\<open>Math.floor(this.timeoutMs / 2)\<close>: a number of milliseconds, NaN, or, for a non-empty
  string \<open>s\<close>, the number \<^verbatim>\<open>Math.floor(s / 2)\<close>, whose conversion from the string is the
  language's and is not evaluated here (\<open>FloorHalfOf s\<close>).
\<close>

datatype delay = Given jsval | Millis int | NotANumber | FloorHalfOf string

text \<open>
  The expression \<^verbatim>\<open>Math.floor(x / 2)\<close>: \<open>x\<close> is converted to a number, halved and
  rounded down. \<^verbatim>\<open>true / 2\<close> is 0.5, \<^verbatim>\<open>null / 2\<close> and \<^verbatim>\<open>'' / 2\<close> are 0,
  \<^verbatim>\<open>undefined / 2\<close> is NaN. \<open>JNum n\<close> is the double of the integer value \<open>n\<close>, whose
  half is exact.
\<close>

fun floor_half :: "jsval \<Rightarrow> delay" where
  "floor_half (JNum n) = Millis \<lfloor>real_of_int n / 2\<rfloor>"
| "floor_half JNaN = NotANumber"
| "floor_half JUndefined = NotANumber"
| "floor_half JNull = Millis 0"
| "floor_half (JBool b) = Millis 0"
| "floor_half (JStr s) = (if s = [] then Millis 0 else FloorHalfOf s)"

text \<open>Thrown values and error arguments: \<^verbatim>\<open>new Error(msg)\<close>, and the TypeError of reading
  a property (named here) of null.\<close>

datatype js_error = Error string | TypeError string

text \<open>An \<^verbatim>\<open>err\<close> argument: absent (undefined or null, \<open>None\<close>) or an error object.\<close>

type_synonym errv = "js_error option"

section \<open>Construction\<close>

record opts =
  opt_timeout :: jsval
  opt_deviceName :: jsval
  opt_deviceType :: jsval

text \<open>The object \<^verbatim>\<open>{}\<close> of \<^verbatim>\<open>opts = opts || {}\<close>: every property reads undefined.\<close>

definition empty_opts :: opts where
  "empty_opts = \<lparr>opt_timeout = JUndefined, opt_deviceName = JUndefined, opt_deviceType = JUndefined\<rparr>"

text \<open>
  The fields of a session object. \<open>rpcStream\<close>, \<open>timeout\<close> and \<open>heartbeat\<close> are null
  (\<open>None\<close>) or a reference: to the stream handle the transport returned, and to a
  watchdog in the store of timer objects. The minimal variant has no device fields; they
  read undefined.
\<close>

record session =
  rpcStream :: "nat option"
  timeoutMs :: jsval
  deviceName :: jsval
  deviceType :: jsval
  timeout :: "nat option"
  heartbeat :: "nat option"

text \<open>\<^verbatim>\<open>SyncProtocol.constructor\<close> (sync-protocol.js, lines 15-37).\<close>

definition SyncProtocol :: "opts option \<Rightarrow> js_error + session" where
  "SyncProtocol arg =
     (let opts = (case arg of None \<Rightarrow> empty_opts | Some x \<Rightarrow> x);
          tm = js_or (opt_timeout opts) (JNum 20000)
      in if \<not> truthy (opt_deviceName opts) then Inl (Error ''must specify opts.deviceName'')
         else if \<not> truthy (opt_deviceType opts) then Inl (Error ''must specify opts.deviceType'')
         else Inr \<lparr>rpcStream = None, timeoutMs = tm,
                   deviceName = opt_deviceName opts, deviceType = opt_deviceType opts,
                   timeout = None, heartbeat = None\<rparr>)"

text \<open>\<^verbatim>\<open>UpgradeProtocol.constructor\<close> (the minimal variant, lines 14-29): it never throws.\<close>

definition UpgradeProtocol :: "opts option \<Rightarrow> session" where
  "UpgradeProtocol arg =
     (let opts = (case arg of None \<Rightarrow> empty_opts | Some x \<Rightarrow> x)
      in \<lparr>rpcStream = None, timeoutMs = js_or (opt_timeout opts) (JNum 20000),
          deviceName = JUndefined, deviceType = JUndefined,
          timeout = None, heartbeat = None\<rparr>)"

section \<open>The world around a session\<close>

text \<open>
  Modelled from the spec: the watchdog (the external module \<^verbatim>\<open>timeout-refresh\<close>), section
  4.1: a single-shot delay with a callback; \<open>refresh\<close> restarts the countdown and is a no-op
  once the watchdog has fired or was destroyed; \<open>destroy\<close> cancels and is idempotent.
  \<open>restarts\<close> counts the restarts of the countdown, in place of a deadline.
\<close>

datatype handler = OnTimeout | OnHeartbeat

datatype wstatus = Armed | Fired | Destroyed

record watchdog =
  delayMs :: delay
  onfire :: handler
  status :: wstatus
  restarts :: nat

definition wd_refresh :: "watchdog \<Rightarrow> watchdog" where
  "wd_refresh d = (if status d = Armed then d\<lparr>restarts := Suc (restarts d)\<rparr> else d)"

definition wd_destroy :: "watchdog \<Rightarrow> watchdog" where
  "wd_destroy d = d\<lparr>status := Destroyed\<rparr>"

text \<open>A callback argument: the no-op (\<^verbatim>\<open>util.noop\<close> of lib/util, which the minimal variant
  defines locally as \<^verbatim>\<open>function noop () {}\<close>) or a function of the caller, named by a
  number.\<close>

datatype callback = Noop | Cb nat

text \<open>\<^verbatim>\<open>cb = cb || util.noop\<close>, on an absent (\<open>None\<close>) or given callback.\<close>

definition or_noop :: "callback option \<Rightarrow> callback" where
  "or_noop cb = (case cb of None \<Rightarrow> Noop | Some c \<Rightarrow> c)"

text \<open>
  What a session does to its collaborators, in the order it does it: calls of the timer
  module, of the transport binding (\<^verbatim>\<open>this.rpc\<close>), of the scheduler, and of callbacks.
  \<open>RpcClose err cb e\<close> is \<^verbatim>\<open>this.rpc.close(err, cb.bind(null, e))\<close>; \<open>Call cb args\<close> is
  the call of \<open>cb\<close> with the error arguments \<open>args\<close>.
\<close>

datatype effect =
    RpcCreateStream nat
  | TimerNew nat delay handler
  | TimerRefresh nat
  | TimerDestroy nat
  | RpcHeartbeat
  | RpcClose errv callback errv
  | NextTick callback
  | Call callback "errv list"

text \<open>
  The session object, the store of the timer objects created so far (a reference is an
  index), and what the collaborators hold: the number of streams the transport has made,
  the closure given to \<^verbatim>\<open>rpc.createStream\<close> (it captures \<open>cb\<close>) while the stream is open,
  the reason of the first \<^verbatim>\<open>rpc.close\<close> on that stream, the completion callbacks given to
  \<^verbatim>\<open>rpc.close\<close> (each bound to its \<open>err\<close>), the number of outbound Heartbeat calls in
  flight, and the queue of \<^verbatim>\<open>process.nextTick\<close>.
\<close>

record world =
  self :: session
  timers :: "watchdog list"
  streams :: nat
  closedCb :: "callback option"
  closing :: "errv option"
  closeCbs :: "(callback \<times> errv) list"
  hbCalls :: nat
  ticks :: "callback list"
  trace :: "effect list"

definition boot :: "session \<Rightarrow> world" where
  "boot s = \<lparr>self = s, timers = [], streams = 0, closedCb = None, closing = None,
             closeCbs = [], hbCalls = 0, ticks = [], trace = []\<rparr>"

text \<open>A method body: it runs on the world and returns or throws, leaving the world as it
  was at that point.\<close>

type_synonym 'a prog = "world \<Rightarrow> (js_error + 'a) \<times> world"

definition ret :: "'a \<Rightarrow> 'a prog" where
  "ret x w = (Inr x, w)"

definition throw :: "js_error \<Rightarrow> 'a prog" where
  "throw e w = (Inl e, w)"

definition and_then :: "'a prog \<Rightarrow> ('a \<Rightarrow> 'b prog) \<Rightarrow> 'b prog" where
  "and_then m f w = (case m w of (Inl e, w') \<Rightarrow> (Inl e, w') | (Inr x, w') \<Rightarrow> f x w')"

definition seq :: "unit prog \<Rightarrow> 'b prog \<Rightarrow> 'b prog" where
  "seq m n = and_then m (\<lambda>_. n)"

definition emit :: "effect \<Rightarrow> unit prog" where
  "emit e w = (Inr (), w\<lparr>trace := trace w @ [e]\<rparr>)"

definition modify_self :: "(session \<Rightarrow> session) \<Rightarrow> unit prog" where
  "modify_self f w = (Inr (), w\<lparr>self := f (self w)\<rparr>)"

subsection \<open>The timer module\<close>

text \<open>\<^verbatim>\<open>timer(ms, fn, this)\<close>: a new armed watchdog; its reference is returned.\<close>

definition timer :: "delay \<Rightarrow> handler \<Rightarrow> nat prog" where
  "timer d h w =
     (Inr (length (timers w)),
      w\<lparr>timers := timers w @ [\<lparr>delayMs = d, onfire = h, status = Armed, restarts = 0\<rparr>],
        trace := trace w @ [TimerNew (length (timers w)) d h]\<rparr>)"

text \<open>\<^verbatim>\<open>this.<field>.refresh()\<close> and \<^verbatim>\<open>this.<field>.destroy()\<close>: a TypeError when the field
  is null.\<close>

definition refresh :: "(session \<Rightarrow> nat option) \<Rightarrow> unit prog" where
  "refresh fld w =
     (case fld (self w) of
        None \<Rightarrow> (Inl (TypeError ''refresh''), w)
      | Some i \<Rightarrow> (Inr (), w\<lparr>timers := (timers w)[i := wd_refresh (timers w ! i)],
                            trace := trace w @ [TimerRefresh i]\<rparr>))"

definition destroy :: "(session \<Rightarrow> nat option) \<Rightarrow> unit prog" where
  "destroy fld w =
     (case fld (self w) of
        None \<Rightarrow> (Inl (TypeError ''destroy''), w)
      | Some i \<Rightarrow> (Inr (), w\<lparr>timers := (timers w)[i := wd_destroy (timers w ! i)],
                            trace := trace w @ [TimerDestroy i]\<rparr>))"

subsection \<open>The transport binding and the scheduler\<close>

text \<open>
  Modelled from the spec: the RPC transport binding (the external module \<^verbatim>\<open>muxrpc\<close>),
  sections 2 and 4.2. \<^verbatim>\<open>rpc.createStream(closure)\<close> makes the stream handle and keeps the
  closure to report the closure of the stream; \<^verbatim>\<open>rpc.Heartbeat(closure)\<close> sends the call
  and keeps the closure for the response; \<^verbatim>\<open>rpc.close(err, done)\<close> records the reason
  and keeps \<open>done\<close> to call it once the close has completed. None of them calls back
  before it returns.
\<close>

definition rpc_createStream :: "callback \<Rightarrow> nat prog" where
  "rpc_createStream cb w =
     (Inr (streams w),
      w\<lparr>streams := Suc (streams w), closedCb := Some cb, closing := None,
        trace := trace w @ [RpcCreateStream (streams w)]\<rparr>)"

definition rpc_Heartbeat :: "unit prog" where
  "rpc_Heartbeat w = (Inr (), w\<lparr>hbCalls := Suc (hbCalls w), trace := trace w @ [RpcHeartbeat]\<rparr>)"

definition rpc_close :: "errv \<Rightarrow> callback \<Rightarrow> errv \<Rightarrow> unit prog" where
  "rpc_close err cb e w =
     (Inr (), w\<lparr>closing := (case closing w of None \<Rightarrow> Some err | Some r \<Rightarrow> Some r),
               closeCbs := closeCbs w @ [(cb, e)],
               trace := trace w @ [RpcClose err cb e]\<rparr>)"

definition nextTick :: "callback \<Rightarrow> unit prog" where
  "nextTick cb w = (Inr (), w\<lparr>ticks := ticks w @ [cb], trace := trace w @ [NextTick cb]\<rparr>)"

definition call :: "callback \<Rightarrow> errv list \<Rightarrow> unit prog" where
  "call cb args = emit (Call cb args)"

section \<open>The methods of a session\<close>

text \<open>
  The methods below are the same text in both classes (sync-protocol.js lines 47-108, the
  minimal variant lines 37-90), up to \<^verbatim>\<open>util.noop\<close> against a local \<^verbatim>\<open>noop\<close>.
\<close>

text \<open>\<^verbatim>\<open>rpcHeartbeat (cb)\<close>.\<close>

definition rpcHeartbeat :: "callback \<Rightarrow> unit prog" where
  "rpcHeartbeat cb = seq (refresh timeout) (seq (refresh heartbeat) (call cb []))"

text \<open>What \<^verbatim>\<open>createStream\<close> returns: \<^verbatim>\<open>false\<close>, or the value of \<^verbatim>\<open>this.rpcStream\<close>
  (the stream handle; null is never read there).\<close>

datatype created = RFalse | RNull | RStream nat

text \<open>\<^verbatim>\<open>createStream (cb)\<close>. The closure given to the transport is \<open>stream_closed\<close> below.\<close>

definition createStream :: "callback option \<Rightarrow> created prog" where
  "createStream cb w =
     (if rpcStream (self w) \<noteq> None then (Inr RFalse, w)
      else
        (and_then (rpc_createStream (or_noop cb)) (\<lambda>s.
         seq (modify_self (\<lambda>x. x\<lparr>rpcStream := Some s\<rparr>))
        (and_then (\<lambda>v. timer (Given (timeoutMs (self v))) OnTimeout v) (\<lambda>t.
         seq (modify_self (\<lambda>x. x\<lparr>timeout := Some t\<rparr>))
        (and_then (\<lambda>v. timer (floor_half (timeoutMs (self v))) OnHeartbeat v) (\<lambda>h.
         seq (modify_self (\<lambda>x. x\<lparr>heartbeat := Some h\<rparr>))
        (\<lambda>v. case rpcStream (self v) of
                None \<Rightarrow> (Inr RNull, v)
              | Some r \<Rightarrow> (Inr (RStream r), v)))))))) w)"

text \<open>\<^verbatim>\<open>onRpcClose (err)\<close>.\<close>

definition onRpcClose :: "errv \<Rightarrow> unit prog" where
  "onRpcClose err =
     seq (destroy timeout)
    (seq (destroy heartbeat)
    (seq (modify_self (\<lambda>x. x\<lparr>rpcStream := None\<rparr>))
    (seq (modify_self (\<lambda>x. x\<lparr>timeout := None\<rparr>))
         (modify_self (\<lambda>x. x\<lparr>heartbeat := None\<rparr>)))))"

text \<open>The closure \<^verbatim>\<open>err => { this.onRpcClose(err); cb(err) }\<close> of \<^verbatim>\<open>createStream\<close>.\<close>

definition stream_closed :: "callback \<Rightarrow> errv \<Rightarrow> unit prog" where
  "stream_closed cb err = seq (onRpcClose err) (call cb [err])"

text \<open>\<^verbatim>\<open>close (err, cb)\<close>.\<close>

definition close :: "errv \<Rightarrow> callback option \<Rightarrow> unit prog" where
  "close err cb w =
     (if rpcStream (self w) \<noteq> None
      then seq (destroy timeout) (seq (destroy heartbeat) (rpc_close err (or_noop cb) err)) w
      else nextTick (or_noop cb) w)"

text \<open>\<^verbatim>\<open>onTimeout ()\<close>.\<close>

definition onTimeout :: "unit prog" where
  "onTimeout = close (Some (Error ''remote timeout'')) None"

text \<open>The closure \<^verbatim>\<open>(err) => { if (err) return; ... }\<close> of \<^verbatim>\<open>onHeartbeat\<close>.\<close>

definition heartbeat_reply :: "errv \<Rightarrow> unit prog" where
  "heartbeat_reply err =
     (case err of Some e \<Rightarrow> ret () | None \<Rightarrow> seq (refresh timeout) (refresh heartbeat))"

text \<open>\<^verbatim>\<open>onHeartbeat ()\<close>.\<close>

definition onHeartbeat :: "unit prog" where
  "onHeartbeat =
     seq (destroy heartbeat)
    (and_then (\<lambda>v. timer (floor_half (timeoutMs (self v))) OnHeartbeat v) (\<lambda>h.
     seq (modify_self (\<lambda>x. x\<lparr>heartbeat := Some h\<rparr>))
         rpc_Heartbeat))"

section \<open>Events\<close>

text \<open>
  A session is driven by calls of its interface (\<open>CreateStream\<close>, \<open>Close\<close>), by the inbound
  Heartbeat call (\<open>HeartbeatIn\<close>: the handler is a method, and callable at any time), and by
  its collaborators: an armed watchdog expires (\<open>Fire\<close>), the transport reports that the
  stream has closed (\<open>RpcClosed\<close>), completes a close request (\<open>RpcCloseDone\<close>, with
  the arguments it passes on), answers an outbound heartbeat (\<open>HeartbeatReply\<close>), and the
  scheduler runs a deferred callback (\<open>Tick\<close>). Every method ends with its call of a
  collaborator or callback, so each event runs to its end before the next.
\<close>

text \<open>
  Modelled from the spec: the answers to calls in flight (section 5, "there is no
  independent cancellation path for Heartbeat/GetInfo calls in flight - they simply receive
  a transport-closed error"). A successful answer (\<open>HeartbeatReply None\<close>) arrives only
  while the transport holds the stream open; once it has reported the closure, a call in
  flight is answered with an error.
\<close>

text \<open>
  Modelled from the spec: why the transport reports the closure (section 4.2, "remote end
  closed, or local close completed, or a read/protocol failure occurred"). A local close
  that completes reports the reason it was given (section 6: \<open>err\<close> "is propagated to the
  transport close and to the peer/local close callbacks").
\<close>

datatype cause = LocalCloseCompleted | RemoteOrFailure errv

datatype event =
    CreateStream "callback option"
  | Close errv "callback option"
  | HeartbeatIn callback
  | Fire nat
  | RpcClosed cause
  | RpcCloseDone "errv list"
  | HeartbeatReply errv
  | Tick

text \<open>The timer module at expiry: the watchdog is marked as fired, then its callback runs
  on the session.\<close>

definition fire :: "nat \<Rightarrow> unit prog" where
  "fire i w =
     (let w' = w\<lparr>timers := (timers w)[i := (timers w ! i)\<lparr>status := Fired\<rparr>]\<rparr>
      in case onfire (timers w ! i) of OnTimeout \<Rightarrow> onTimeout w' | OnHeartbeat \<Rightarrow> onHeartbeat w')"

definition thrown :: "(js_error + 'a) \<times> world \<Rightarrow> js_error option \<times> world" where
  "thrown r = (case r of (Inl e, w) \<Rightarrow> (Some e, w) | (Inr x, w) \<Rightarrow> (None, w))"

text \<open>One event: \<open>None\<close> when it cannot happen in this world, else the error thrown (if
  any) and the next world.\<close>

fun step :: "event \<Rightarrow> world \<Rightarrow> (js_error option \<times> world) option" where
  "step (CreateStream cb) w = Some (thrown (createStream cb w))"
| "step (Close err cb) w = Some (thrown (close err cb w))"
| "step (HeartbeatIn cb) w = Some (thrown (rpcHeartbeat cb w))"
| "step (Fire i) w =
     (if i < length (timers w) \<and> status (timers w ! i) = Armed
      then Some (thrown (fire i w)) else None)"
| "step (RpcClosed c) w =
     (case closedCb w of
        None \<Rightarrow> None
      | Some cb \<Rightarrow>
          (case c of
             RemoteOrFailure e \<Rightarrow> Some (thrown (stream_closed cb e (w\<lparr>closedCb := None\<rparr>)))
           | LocalCloseCompleted \<Rightarrow>
               (case closing w of
                  None \<Rightarrow> None
                | Some r \<Rightarrow> Some (thrown (stream_closed cb r (w\<lparr>closedCb := None\<rparr>))))))"
| "step (RpcCloseDone args) w =
     (case closeCbs w of
        [] \<Rightarrow> None
      | (cb, e) # rest \<Rightarrow> Some (thrown (call cb (e # args) (w\<lparr>closeCbs := rest\<rparr>))))"
| "step (HeartbeatReply err) w =
     (if hbCalls w = 0 \<or> (err = None \<and> closedCb w = None) then None
      else Some (thrown (heartbeat_reply err (w\<lparr>hbCalls := hbCalls w - 1\<rparr>))))"
| "step Tick w =
     (case ticks w of
        [] \<Rightarrow> None
      | cb # rest \<Rightarrow> Some (thrown (call cb [] (w\<lparr>ticks := rest\<rparr>))))"

fun run :: "event list \<Rightarrow> world \<Rightarrow> world option" where
  "run [] w = Some w"
| "run (e # es) w = (case step e w of None \<Rightarrow> None | Some (r, w') \<Rightarrow> run es w')"

section \<open>Lifecycle\<close>

text \<open>
  The states of section 4.2, read off the world: a stream is bound or not; when bound, a
  close has been requested of the transport or not; when not bound, a stream was made
  before or not.
\<close>

datatype lifecycle = Unconnected | Active | Closing | Closed

definition lifecycle_of :: "world \<Rightarrow> lifecycle" where
  "lifecycle_of w =
     (case rpcStream (self w) of
        Some s \<Rightarrow> (if closing w = None then Active else Closing)
      | None \<Rightarrow> (if streams w = 0 then Unconnected else Closed))"


text \<open>
  The worlds a session can be in: either class constructs the session, and events follow.
\<close>

inductive reachable :: "world \<Rightarrow> bool" where
  minimal: "reachable (boot (UpgradeProtocol arg))"
| identifying: "SyncProtocol arg = Inr s \<Longrightarrow> reachable (boot s)"
| event: "reachable w \<Longrightarrow> step e w = Some (r, w') \<Longrightarrow> reachable w'"

text \<open>
  The fields and the timer store agree. Without a stream both watchdog fields are null,
  the transport holds no closure and no timer object is armed. With a stream both fields
  refer to two different timer objects, made for \<open>timeoutMs\<close> and for its floored half,
  both armed until a close is requested and neither afterwards, and no other timer object
  is armed.
\<close>

definition consistent :: "world \<Rightarrow> bool" where
  "consistent w =
     ((rpcStream (self w) = None \<longrightarrow>
         timeout (self w) = None \<and> heartbeat (self w) = None \<and> closedCb w = None \<and>
         (\<forall>i < length (timers w). status (timers w ! i) \<noteq> Armed)) \<and>
      (rpcStream (self w) \<noteq> None \<longrightarrow>
         closedCb w \<noteq> None \<and>
         (\<exists>t h. timeout (self w) = Some t \<and> heartbeat (self w) = Some h \<and>
            t < length (timers w) \<and> h < length (timers w) \<and> t \<noteq> h \<and>
            delayMs (timers w ! t) = Given (timeoutMs (self w)) \<and>
            delayMs (timers w ! h) = floor_half (timeoutMs (self w)) \<and>
            onfire (timers w ! t) = OnTimeout \<and> onfire (timers w ! h) = OnHeartbeat \<and>
            (status (timers w ! t) = Armed) = (closing w = None) \<and>
            (status (timers w ! h) = Armed) = (closing w = None) \<and>
            (\<forall>i < length (timers w). i \<noteq> t \<longrightarrow> i \<noteq> h \<longrightarrow> status (timers w ! i) \<noteq> Armed))))"

text \<open>The errors thrown along a sequence of events, one entry per event.\<close>

fun outcomes :: "event list \<Rightarrow> world \<Rightarrow> js_error option list option" where
  "outcomes [] w = Some []"
| "outcomes (e # es) w =
     (case step e w of
        None \<Rightarrow> None
      | Some (r, w') \<Rightarrow> (case outcomes es w' of None \<Rightarrow> None | Some rs \<Rightarrow> Some (r # rs)))"

text \<open>A session as the tests make it, with a timeout of 100 ms, and the worlds it is in
  after \<^verbatim>\<open>createStream(cb1)\<close>, and after a following \<^verbatim>\<open>close()\<close>.\<close>

definition test_opts :: opts where
  "test_opts = \<lparr>opt_timeout = JNum 100, opt_deviceName = JStr ''test device'',
                 opt_deviceType = JStr ''mobile''\<rparr>"

definition test_session :: session where
  "test_session = \<lparr>rpcStream = None, timeoutMs = JNum 100, deviceName = JStr ''test device'',
                    deviceType = JStr ''mobile'', timeout = None, heartbeat = None\<rparr>"

definition active_world :: world where
  "active_world =
     \<lparr>self = test_session\<lparr>rpcStream := Some 0, timeout := Some 0, heartbeat := Some 1\<rparr>,
      timers = [\<lparr>delayMs = Given (JNum 100), onfire = OnTimeout, status = Armed, restarts = 0\<rparr>,
                \<lparr>delayMs = Millis 50, onfire = OnHeartbeat, status = Armed, restarts = 0\<rparr>],
      streams = 1, closedCb = Some (Cb 1), closing = None, closeCbs = [], hbCalls = 0,
      ticks = [], trace = [RpcCreateStream 0, TimerNew 0 (Given (JNum 100)) OnTimeout,
                           TimerNew 1 (Millis 50) OnHeartbeat]\<rparr>"


text \<open>The world after a sequence of events (the world itself if one of them cannot
  happen), and the world of the test session after \<^verbatim>\<open>createStream(cb1)\<close>, one expiry of
  the heartbeat watchdog, and \<^verbatim>\<open>close()\<close>, the outbound heartbeat still in flight.\<close>

definition after :: "event list \<Rightarrow> world \<Rightarrow> world" where
  "after es w = (case run es w of None \<Rightarrow> w | Some w' \<Rightarrow> w')"

definition hb_closing_world :: world where
  "hb_closing_world = after [Fire 1, Close None None] active_world"

section \<open>What each method does\<close>

lemmas prog_defs = ret_def throw_def and_then_def seq_def emit_def modify_self_def timer_def
  refresh_def destroy_def rpc_createStream_def rpc_Heartbeat_def rpc_close_def nextTick_def call_def

lemma floor_half_num: "floor_half (JNum n) = Millis (n div 2)"
  by (simp add: floor_divide_of_int_eq [of n 2, simplified])

lemma createStream_new:
  "rpcStream (self w) = None \<Longrightarrow>
   createStream cb w =
     (Inr (RStream (streams w)),
      w\<lparr>self := (self w)\<lparr>rpcStream := Some (streams w), timeout := Some (length (timers w)),
                          heartbeat := Some (Suc (length (timers w)))\<rparr>,
        timers := timers w @
          [\<lparr>delayMs = Given (timeoutMs (self w)), onfire = OnTimeout, status = Armed, restarts = 0\<rparr>,
           \<lparr>delayMs = floor_half (timeoutMs (self w)), onfire = OnHeartbeat, status = Armed, restarts = 0\<rparr>],
        streams := Suc (streams w), closedCb := Some (or_noop cb), closing := None,
        trace := trace w @
          [RpcCreateStream (streams w),
           TimerNew (length (timers w)) (Given (timeoutMs (self w))) OnTimeout,
           TimerNew (Suc (length (timers w))) (floor_half (timeoutMs (self w))) OnHeartbeat]\<rparr>)"
  by (simp add: createStream_def prog_defs)

lemma createStream_bound:
  "rpcStream (self w) \<noteq> None \<Longrightarrow> createStream cb w = (Inr RFalse, w)"
  by (simp add: createStream_def)

lemma close_bound:
  "rpcStream (self w) \<noteq> None \<Longrightarrow> timeout (self w) = Some t \<Longrightarrow> heartbeat (self w) = Some h \<Longrightarrow>
   close err cb w =
     (Inr (),
      w\<lparr>timers := (timers w)[t := wd_destroy (timers w ! t), h := wd_destroy ((timers w)[t := wd_destroy (timers w ! t)] ! h)],
        closing := (case closing w of None \<Rightarrow> Some err | Some r \<Rightarrow> Some r),
        closeCbs := closeCbs w @ [(or_noop cb, err)],
        trace := trace w @ [TimerDestroy t, TimerDestroy h, RpcClose err (or_noop cb) err]\<rparr>)"
  by (simp add: close_def prog_defs)

lemma close_unbound:
  "rpcStream (self w) = None \<Longrightarrow>
   close err cb w =
     (Inr (), w\<lparr>ticks := ticks w @ [or_noop cb], trace := trace w @ [NextTick (or_noop cb)]\<rparr>)"
  by (simp add: close_def prog_defs)

lemma onRpcClose_bound:
  "timeout (self w) = Some t \<Longrightarrow> heartbeat (self w) = Some h \<Longrightarrow>
   onRpcClose err w =
     (Inr (),
      w\<lparr>self := (self w)\<lparr>rpcStream := None, timeout := None, heartbeat := None\<rparr>,
        timers := (timers w)[t := wd_destroy (timers w ! t), h := wd_destroy ((timers w)[t := wd_destroy (timers w ! t)] ! h)],
        trace := trace w @ [TimerDestroy t, TimerDestroy h]\<rparr>)"
  by (simp add: onRpcClose_def prog_defs)

lemma onHeartbeat_bound:
  "heartbeat (self w) = Some h \<Longrightarrow>
   onHeartbeat w =
     (Inr (),
      w\<lparr>self := (self w)\<lparr>heartbeat := Some (length (timers w))\<rparr>,
        timers := (timers w)[h := wd_destroy (timers w ! h)] @
          [\<lparr>delayMs = floor_half (timeoutMs (self w)), onfire = OnHeartbeat, status = Armed, restarts = 0\<rparr>],
        hbCalls := Suc (hbCalls w),
        trace := trace w @ [TimerDestroy h, TimerNew (length (timers w)) (floor_half (timeoutMs (self w))) OnHeartbeat,
           RpcHeartbeat]\<rparr>)"
  by (simp add: onHeartbeat_def prog_defs)

lemma rpcHeartbeat_bound:
  "timeout (self w) = Some t \<Longrightarrow> heartbeat (self w) = Some h \<Longrightarrow>
   rpcHeartbeat cb w =
     (Inr (),
      w\<lparr>timers := (timers w)[t := wd_refresh (timers w ! t), h := wd_refresh ((timers w)[t := wd_refresh (timers w ! t)] ! h)],
        trace := trace w @ [TimerRefresh t, TimerRefresh h, Call cb []]\<rparr>)"
  by (simp add: rpcHeartbeat_def prog_defs)

lemma rpcHeartbeat_null:
  "timeout (self w) = None \<Longrightarrow> rpcHeartbeat cb w = (Inl (TypeError ''refresh''), w)"
  by (simp add: rpcHeartbeat_def prog_defs)

lemma heartbeat_reply_ok:
  "timeout (self w) = Some t \<Longrightarrow> heartbeat (self w) = Some h \<Longrightarrow>
   heartbeat_reply None w =
     (Inr (),
      w\<lparr>timers := (timers w)[t := wd_refresh (timers w ! t), h := wd_refresh ((timers w)[t := wd_refresh (timers w ! t)] ! h)],
        trace := trace w @ [TimerRefresh t, TimerRefresh h]\<rparr>)"
  by (simp add: heartbeat_reply_def prog_defs)

lemma heartbeat_reply_err: "heartbeat_reply (Some e) w = (Inr (), w)"
  by (simp add: heartbeat_reply_def prog_defs)

lemma heartbeat_reply_null:
  "timeout (self w) = None \<Longrightarrow> heartbeat_reply None w = (Inl (TypeError ''refresh''), w)"
  by (simp add: heartbeat_reply_def prog_defs)

section \<open>The fields and the timer store agree in every reachable world\<close>

lemma consistent_unbound:
  "rpcStream (self w) = None \<Longrightarrow>
   consistent w \<longleftrightarrow> timeout (self w) = None \<and> heartbeat (self w) = None \<and> closedCb w = None \<and>
          (\<forall>i < length (timers w). status (timers w ! i) \<noteq> Armed)"
  by (simp add: consistent_def)

lemma consistent_boundD:
  assumes "consistent w" "rpcStream (self w) \<noteq> None"
  obtains t h cb where "timeout (self w) = Some t" "heartbeat (self w) = Some h" "closedCb w = Some cb"
    "t < length (timers w)" "h < length (timers w)" "t \<noteq> h"
    "delayMs (timers w ! t) = Given (timeoutMs (self w))"
    "delayMs (timers w ! h) = floor_half (timeoutMs (self w))"
    "onfire (timers w ! t) = OnTimeout" "onfire (timers w ! h) = OnHeartbeat"
    "(status (timers w ! t) = Armed) = (closing w = None)"
    "(status (timers w ! h) = Armed) = (closing w = None)"
    "\<And>i. i < length (timers w) \<Longrightarrow> i \<noteq> t \<Longrightarrow> i \<noteq> h \<Longrightarrow> status (timers w ! i) \<noteq> Armed"
  using assms by (auto simp: consistent_def split: option.splits)

lemma consistent_createStream: "consistent w \<Longrightarrow> consistent (snd (createStream cb w))"
proof (cases "rpcStream (self w)")
  case None
  assume "consistent w"
  with None show ?thesis
    by (auto simp: createStream_new consistent_def nth_append less_Suc_eq)
next
  case (Some s)
  assume "consistent w"
  with Some show ?thesis by (simp add: createStream_bound)
qed

lemma consistent_close: "consistent w \<Longrightarrow> consistent (snd (close err cb w))"
proof (cases "rpcStream (self w)")
  case None
  assume "consistent w"
  with None show ?thesis by (simp add: close_unbound consistent_def)
next
  case (Some s)
  assume i: "consistent w"
  from Some have b: "rpcStream (self w) \<noteq> None" by simp
  from i b show ?thesis
    by (elim consistent_boundD) (auto simp: close_bound consistent_def wd_destroy_def nth_list_update split: option.splits)
qed

lemma consistent_rpcHeartbeat: "consistent w \<Longrightarrow> consistent (snd (rpcHeartbeat cb w))"
proof (cases "rpcStream (self w)")
  case None
  assume "consistent w"
  with None show ?thesis by (simp add: rpcHeartbeat_null consistent_def)
next
  case (Some s)
  assume i: "consistent w"
  from Some have b: "rpcStream (self w) \<noteq> None" by simp
  from i b show ?thesis
    by (elim consistent_boundD) (auto simp: rpcHeartbeat_bound consistent_def wd_refresh_def nth_list_update split: option.splits)
qed

lemma consistent_hbCalls: "consistent (w\<lparr>hbCalls := n\<rparr>) = consistent w"
  by (simp add: consistent_def)

lemma consistent_heartbeat_reply_aux: "consistent w \<Longrightarrow> consistent (snd (heartbeat_reply err w))"
proof (cases err)
  case (Some e)
  assume "consistent w"
  with Some show ?thesis by (simp add: heartbeat_reply_err consistent_def)
next
  case None
  note e = None
  assume i: "consistent w"
  show ?thesis
  proof (cases "rpcStream (self w)")
    case None
    with i e show ?thesis by (simp add: heartbeat_reply_null consistent_def)
  next
    case (Some s)
    from Some have b: "rpcStream (self w) \<noteq> None" by simp
    from i b e show ?thesis
      by (elim consistent_boundD) (auto simp: heartbeat_reply_ok consistent_def wd_refresh_def nth_list_update split: option.splits)
  qed
qed

lemma consistent_heartbeat_reply:
  "consistent w \<Longrightarrow> consistent (snd (heartbeat_reply err (w\<lparr>hbCalls := n\<rparr>)))"
  by (rule consistent_heartbeat_reply_aux) (simp add: consistent_hbCalls)

lemma consistent_stream_closed:
  "consistent w \<Longrightarrow> closedCb w = Some c \<Longrightarrow> consistent (snd (stream_closed cb err (w\<lparr>closedCb := None\<rparr>)))"
proof -
  assume i: "consistent w" and c: "closedCb w = Some c"
  from i c have b: "rpcStream (self w) \<noteq> None" by (auto simp: consistent_def split: option.splits)
  from i b show ?thesis
    by (elim consistent_boundD)
       (auto simp: stream_closed_def seq_def and_then_def call_def emit_def onRpcClose_bound consistent_def wd_destroy_def nth_list_update)
qed

lemma consistent_fire:
  "consistent w \<Longrightarrow> i < length (timers w) \<Longrightarrow> status (timers w ! i) = Armed \<Longrightarrow> consistent (snd (fire i w))"
proof -
  assume i: "consistent w" and l: "i < length (timers w)" and a: "status (timers w ! i) = Armed"
  from i l a have b: "rpcStream (self w) \<noteq> None" by (auto simp: consistent_def split: option.splits)
  from i b show ?thesis
  proof (elim consistent_boundD)
    fix t h cb
    assume f: "timeout (self w) = Some t" "heartbeat (self w) = Some h" "closedCb w = Some cb"
    "t < length (timers w)" "h < length (timers w)" "t \<noteq> h"
    "delayMs (timers w ! t) = Given (timeoutMs (self w))"
    "delayMs (timers w ! h) = floor_half (timeoutMs (self w))"
    "onfire (timers w ! t) = OnTimeout" "onfire (timers w ! h) = OnHeartbeat"
    "(status (timers w ! t) = Armed) = (closing w = None)"
    "(status (timers w ! h) = Armed) = (closing w = None)"
    "\<And>i. i < length (timers w) \<Longrightarrow> i \<noteq> t \<Longrightarrow> i \<noteq> h \<Longrightarrow> status (timers w ! i) \<noteq> Armed"
    from f(13) l a have "i = t \<or> i = h" by blast
    then show ?thesis
    proof
      assume "i = t"
      with f b a show ?thesis
        by (auto simp: fire_def Let_def onTimeout_def close_bound consistent_def wd_destroy_def nth_list_update split: option.splits)
    next
      assume "i = h"
      with f b a show ?thesis
        by (auto simp: fire_def Let_def onHeartbeat_bound consistent_def wd_destroy_def nth_list_update nth_append split: option.splits)
    qed
  qed
qed

lemma snd_thrown: "snd (thrown r) = snd r"
  by (cases r) (auto simp: thrown_def split: sum.splits)

lemma consistent_step: "consistent w \<Longrightarrow> step e w = Some (r, w') \<Longrightarrow> consistent w'"
proof (cases e)
  case (CreateStream cb)
  assume "consistent w" "step e w = Some (r, w')"
  with CreateStream show ?thesis using consistent_createStream [of w cb] by (auto simp: snd_thrown dest: arg_cong [where f = snd])
next
  case (Close err cb)
  assume "consistent w" "step e w = Some (r, w')"
  with Close show ?thesis using consistent_close [of w err cb] by (auto simp: snd_thrown dest: arg_cong [where f = snd])
next
  case (HeartbeatIn cb)
  assume "consistent w" "step e w = Some (r, w')"
  with HeartbeatIn show ?thesis using consistent_rpcHeartbeat [of w cb] by (auto simp: snd_thrown dest: arg_cong [where f = snd])
next
  case (Fire i)
  assume "consistent w" "step e w = Some (r, w')"
  with Fire show ?thesis using consistent_fire [of w i]
    by (auto simp: snd_thrown split: if_splits dest: arg_cong [where f = snd])
next
  case (RpcClosed c)
  assume "consistent w" "step e w = Some (r, w')"
  with RpcClosed show ?thesis using consistent_stream_closed [of w]
    by (auto simp: snd_thrown split: option.splits cause.splits dest!: arg_cong [where f = snd])
next
  case (RpcCloseDone args)
  assume "consistent w" "step e w = Some (r, w')"
  with RpcCloseDone show ?thesis
    by (auto simp: thrown_def call_def emit_def consistent_def split: list.splits option.splits)
next
  case (HeartbeatReply err)
  assume "consistent w" "step e w = Some (r, w')"
  with HeartbeatReply show ?thesis using consistent_heartbeat_reply [of w err]
    by (auto simp: snd_thrown split: if_splits dest!: arg_cong [where f = snd])
next
  case Tick
  assume "consistent w" "step e w = Some (r, w')"
  with Tick show ?thesis
    by (auto simp: thrown_def call_def emit_def consistent_def split: list.splits option.splits)
qed

lemma reachable_consistent: "reachable w \<Longrightarrow> consistent w"
proof (induction rule: reachable.induct)
  case (minimal arg)
  show ?case by (simp add: consistent_def boot_def UpgradeProtocol_def Let_def)
next
  case (identifying arg s)
  then show ?case
    by (auto simp: consistent_def boot_def SyncProtocol_def Let_def split: if_splits)
next
  case (event w e r w')
  then show ?case by (blast intro: consistent_step)
qed

lemma reachable_run: "reachable w \<Longrightarrow> run es w = Some w' \<Longrightarrow> reachable w'"
proof (induction es arbitrary: w)
  case Nil
  then show ?case by simp
next
  case (Cons e es)
  then show ?case by (auto split: option.splits intro: reachable.event)
qed

lemma test_session_constructed: "SyncProtocol (Some test_opts) = Inr test_session"
  by (simp add: SyncProtocol_def test_opts_def test_session_def Let_def js_or_def)

lemma step_createStream_test:
  "step (CreateStream (Some (Cb 1))) (boot test_session) = Some (None, active_world)"
  by (simp add: createStream_new thrown_def boot_def test_session_def active_world_def
      or_noop_def floor_half_num)

lemma reachable_active_world: "reachable active_world"
  using reachable.event [OF reachable.identifying [OF test_session_constructed] step_createStream_test] .



lemma SyncProtocol_ok:
  "SyncProtocol (Some p) = Inr s \<longleftrightarrow>
     truthy (opt_deviceName p) \<and> truthy (opt_deviceType p) \<and>
     s = \<lparr>rpcStream = None, timeoutMs = js_or (opt_timeout p) (JNum 20000),
          deviceName = opt_deviceName p, deviceType = opt_deviceType p,
          timeout = None, heartbeat = None\<rparr>"
  by (auto simp: SyncProtocol_def Let_def)


lemma reachable_after: "reachable w \<Longrightarrow> reachable (after es w)"
  by (auto simp: after_def split: option.splits intro: reachable_run)

lemma activeD:
  assumes "reachable w" "lifecycle_of w = Active"
    "timeout (self w) = Some t" "heartbeat (self w) = Some h"
  shows "rpcStream (self w) \<noteq> None" "closing w = None" "closedCb w \<noteq> None"
    "t < length (timers w)" "h < length (timers w)" "t \<noteq> h"
    "status (timers w ! t) = Armed" "status (timers w ! h) = Armed"
    "onfire (timers w ! t) = OnTimeout" "onfire (timers w ! h) = OnHeartbeat"
    "delayMs (timers w ! t) = Given (timeoutMs (self w))"
    "delayMs (timers w ! h) = floor_half (timeoutMs (self w))"
proof -
  from assms(2) show b: "rpcStream (self w) \<noteq> None" and c: "closing w = None"
    by (auto simp: lifecycle_of_def split: option.splits if_splits)
  from reachable_consistent [OF assms(1)] b c assms(3,4)
  show "closedCb w \<noteq> None"
    "t < length (timers w)" "h < length (timers w)" "t \<noteq> h"
    "status (timers w ! t) = Armed" "status (timers w ! h) = Armed"
    "onfire (timers w ! t) = OnTimeout" "onfire (timers w ! h) = OnHeartbeat"
    "delayMs (timers w ! t) = Given (timeoutMs (self w))"
    "delayMs (timers w ! h) = floor_half (timeoutMs (self w))"
    by (auto elim!: consistent_boundD)
qed

lemma active_world_facts:
  "lifecycle_of active_world = Active"
  "timeout (self active_world) = Some 0" "heartbeat (self active_world) = Some 1"
  "closedCb active_world = Some (Cb 1)" "closeCbs active_world = []"
  "rpcStream (self active_world) \<noteq> None"
  by (simp_all add: lifecycle_of_def active_world_def test_session_def)

lemma hb_closing_world_eq:
  "hb_closing_world =
     active_world\<lparr>
       self := (self active_world)\<lparr>heartbeat := Some 2\<rparr>,
       timers := [\<lparr>delayMs = Given (JNum 100), onfire = OnTimeout, status = Destroyed, restarts = 0\<rparr>,
                  \<lparr>delayMs = Millis 50, onfire = OnHeartbeat, status = Destroyed, restarts = 0\<rparr>,
                  \<lparr>delayMs = Millis 50, onfire = OnHeartbeat, status = Destroyed, restarts = 0\<rparr>],
       hbCalls := 1, closing := Some None, closeCbs := [(Noop, None)],
       trace := trace active_world @
         [TimerDestroy 1, TimerNew 2 (Millis 50) OnHeartbeat, RpcHeartbeat,
          TimerDestroy 0, TimerDestroy 2, RpcClose None Noop None]\<rparr>"
  by (simp add: hb_closing_world_def after_def fire_def Let_def onHeartbeat_bound close_bound
      thrown_def wd_destroy_def or_noop_def active_world_def test_session_def floor_half_num)

lemma reachable_hb_closing_world: "reachable hb_closing_world"
  unfolding hb_closing_world_def by (rule reachable_after [OF reachable_active_world])

section \<open>The claims\<close>



text \<open>
  C2. While a stream is bound, \<^verbatim>\<open>createStream\<close> returns \<^verbatim>\<open>false\<close>, does not throw and
  changes nothing. So, called twice on a session without a stream, the first call returns
  the new stream handle and the second returns \<^verbatim>\<open>false\<close> and leaves the world of the
  first call, with its stream handle, as it is.
\<close>

theorem createStream_twice:
  "(rpcStream (self w) \<noteq> None \<longrightarrow> createStream cb2 w = (Inr RFalse, w)) \<and>
   (rpcStream (self w) = None \<longrightarrow>
      fst (createStream cb1 w) = Inr (RStream (streams w)) \<and>
      rpcStream (self (snd (createStream cb1 w))) = Some (streams w) \<and>
      createStream cb2 (snd (createStream cb1 w)) = (Inr RFalse, snd (createStream cb1 w)))"
  by (simp add: createStream_new createStream_bound)

theorem createStream_twice_witness:
  "rpcStream (self (boot test_session)) = None \<and>
   createStream (Some (Cb 1)) (boot test_session) = (Inr (RStream 0), active_world) \<and>
   rpcStream (self active_world) \<noteq> None \<and>
   createStream (Some (Cb 2)) active_world = (Inr RFalse, active_world)"
proof -
  have u: "rpcStream (self (boot test_session)) = None"
    by (simp add: boot_def test_session_def)
  have c: "createStream (Some (Cb 1)) (boot test_session) = (Inr (RStream 0), active_world)"
    by (simp add: createStream_new boot_def test_session_def active_world_def or_noop_def
        floor_half_num)
  have b: "rpcStream (self active_world) \<noteq> None"
    by (simp add: active_world_def test_session_def)
  from createStream_twice [of "boot test_session" "Some (Cb 2)" "Some (Cb 1)"]
    createStream_twice [of active_world "Some (Cb 2)" "Some (Cb 1)"] u c b
  show ?thesis by simp
qed

text \<open>
  C3. In an Active session the expiry of the timeout watchdog does one thing: it calls
  \<^verbatim>\<open>close\<close> with the error "remote timeout" and no callback. Both watchdogs are
  destroyed and the transport is asked to close with that error as the reason; when the
  transport then reports the closure of the local close, the callback given to
  \<^verbatim>\<open>createStream\<close> is called with that same error.
\<close>

theorem timeout_fires_close:
  assumes "reachable w" and "lifecycle_of w = Active"
    and "timeout (self w) = Some t" and "heartbeat (self w) = Some h"
    and "closedCb w = Some cb"
  shows
    "(let E = Some (Error ''remote timeout'');
          w1 = w\<lparr>timers := (timers w)[t := (timers w ! t)\<lparr>status := Destroyed\<rparr>,
                                        h := (timers w ! h)\<lparr>status := Destroyed\<rparr>],
                 closing := Some E, closeCbs := closeCbs w @ [(Noop, E)],
                 trace := trace w @ [TimerDestroy t, TimerDestroy h, RpcClose E Noop E]\<rparr>;
          w2 = w1\<lparr>self := (self w)\<lparr>rpcStream := None, timeout := None, heartbeat := None\<rparr>,
                   closedCb := None,
                   trace := trace w1 @ [TimerDestroy t, TimerDestroy h, Call cb [E]]\<rparr>
      in fire t w = close E None (w\<lparr>timers := (timers w)[t := (timers w ! t)\<lparr>status := Fired\<rparr>]\<rparr>) \<and>
         step (Fire t) w = Some (None, w1) \<and>
         step (RpcClosed LocalCloseCompleted) w1 = Some (None, w2))"
proof -
  note a = activeD [OF assms(1-4)]
  from a have n: "(timers w)[t := (timers w ! t)\<lparr>status := Fired\<rparr>] ! h = timers w ! h"
    by simp
  have f: "fire t w = close (Some (Error ''remote timeout'')) None
             (w\<lparr>timers := (timers w)[t := (timers w ! t)\<lparr>status := Fired\<rparr>]\<rparr>)"
    using a by (simp add: fire_def onTimeout_def Let_def)
  have s1: "step (Fire t) w = Some (None,
      w\<lparr>timers := (timers w)[t := (timers w ! t)\<lparr>status := Destroyed\<rparr>,
                                        h := (timers w ! h)\<lparr>status := Destroyed\<rparr>],
                 closing := Some (Some (Error ''remote timeout'')),
                 closeCbs := closeCbs w @ [(Noop, Some (Error ''remote timeout''))],
                 trace := trace w @ [TimerDestroy t, TimerDestroy h,
                   RpcClose (Some (Error ''remote timeout'')) Noop (Some (Error ''remote timeout''))]\<rparr>)"
    using a assms(3,4) n
    by (simp add: f close_bound thrown_def wd_destroy_def or_noop_def)
  have s2: "step (RpcClosed LocalCloseCompleted)
      (w\<lparr>timers := (timers w)[t := (timers w ! t)\<lparr>status := Destroyed\<rparr>,
                                        h := (timers w ! h)\<lparr>status := Destroyed\<rparr>],
                 closing := Some (Some (Error ''remote timeout'')),
                 closeCbs := closeCbs w @ [(Noop, Some (Error ''remote timeout''))],
                 trace := trace w @ [TimerDestroy t, TimerDestroy h,
                   RpcClose (Some (Error ''remote timeout'')) Noop (Some (Error ''remote timeout''))]\<rparr>)
     = Some (None, w\<lparr>timers := (timers w)[t := (timers w ! t)\<lparr>status := Destroyed\<rparr>,
                                        h := (timers w ! h)\<lparr>status := Destroyed\<rparr>],
                 closing := Some (Some (Error ''remote timeout'')),
                 closeCbs := closeCbs w @ [(Noop, Some (Error ''remote timeout''))],
                 self := (self w)\<lparr>rpcStream := None, timeout := None, heartbeat := None\<rparr>,
                 closedCb := None,
                 trace := trace w @ [TimerDestroy t, TimerDestroy h,
                   RpcClose (Some (Error ''remote timeout'')) Noop (Some (Error ''remote timeout'')),
                   TimerDestroy t, TimerDestroy h, Call cb [Some (Error ''remote timeout'')]]\<rparr>)"
    using a assms(3,4,5)
    by (simp add: stream_closed_def seq_def and_then_def call_def emit_def onRpcClose_bound
        thrown_def wd_destroy_def list_update_swap [of t h])
  show ?thesis unfolding Let_def using f s1 s2 by simp
qed

theorem timeout_fires_close_witness:
  "reachable active_world \<and> lifecycle_of active_world = Active \<and>
   timeout (self active_world) = Some 0 \<and> heartbeat (self active_world) = Some 1 \<and>
   closedCb active_world = Some (Cb 1) \<and>
   outcomes [Fire 0, RpcClosed LocalCloseCompleted] active_world = Some [None, None] \<and>
   trace (after [Fire 0, RpcClosed LocalCloseCompleted] active_world) =
     trace active_world @
       [TimerDestroy 0, TimerDestroy 1,
        RpcClose (Some (Error ''remote timeout'')) Noop (Some (Error ''remote timeout'')),
        TimerDestroy 0, TimerDestroy 1, Call (Cb 1) [Some (Error ''remote timeout'')]]"
proof -
  note f = active_world_facts
  from timeout_fires_close [OF reachable_active_world f(1-4)]
  show ?thesis using reachable_active_world f(1-4)
    by (simp add: Let_def after_def)
qed

text \<open>
  C4, as amended. With a stream bound (Active, or closing with the watchdogs destroyed but
  still referenced) the Heartbeat handler calls \<open>refresh\<close> on the timeout watchdog and on
  the heartbeat watchdog, then calls back without an error, and does not throw; in the
  Active state both countdowns are restarted. Without a stream (Unconnected or Closed) the
  watchdog fields are null: the handler throws a TypeError at its first statement and does
  not call back.
\<close>

theorem rpcHeartbeat_refreshes:
  assumes "reachable w"
  shows "(rpcStream (self w) \<noteq> None \<longrightarrow>
           (\<exists>t h. timeout (self w) = Some t \<and> heartbeat (self w) = Some h \<and>
              rpcHeartbeat cb w =
                (Inr (),
                 w\<lparr>timers := (timers w)[t := wd_refresh (timers w ! t),
                                          h := wd_refresh (timers w ! h)],
                   trace := trace w @ [TimerRefresh t, TimerRefresh h, Call cb []]\<rparr>) \<and>
              (lifecycle_of w = Active \<longrightarrow>
                 restarts (timers (snd (rpcHeartbeat cb w)) ! t) = Suc (restarts (timers w ! t)) \<and>
                 restarts (timers (snd (rpcHeartbeat cb w)) ! h) = Suc (restarts (timers w ! h))))) \<and>
         (rpcStream (self w) = None \<longrightarrow> rpcHeartbeat cb w = (Inl (TypeError ''refresh''), w))"
proof (cases "rpcStream (self w)")
  case None
  with reachable_consistent [OF assms] show ?thesis
    by (simp add: consistent_unbound rpcHeartbeat_null)
next
  case (Some s)
  then have b: "rpcStream (self w) \<noteq> None" by simp
  from reachable_consistent [OF assms] b show ?thesis
  proof (elim consistent_boundD)
    fix t h c
    assume f: "timeout (self w) = Some t" "heartbeat (self w) = Some h"
      "t < length (timers w)" "h < length (timers w)" "t \<noteq> h"
      "(status (timers w ! t) = Armed) = (closing w = None)"
      "(status (timers w ! h) = Armed) = (closing w = None)"
    then have n: "(timers w)[t := wd_refresh (timers w ! t)] ! h = timers w ! h" by simp
    have "lifecycle_of w = Active \<Longrightarrow> closing w = None"
      by (auto simp: lifecycle_of_def split: option.splits if_splits)
    with f n b show ?thesis
      by (auto simp: rpcHeartbeat_bound wd_refresh_def)
  qed
qed

theorem rpcHeartbeat_refreshes_witness:
  "reachable active_world \<and> rpcStream (self active_world) \<noteq> None \<and>
   lifecycle_of active_world = Active \<and>
   fst (rpcHeartbeat (Cb 5) active_world) = Inr () \<and>
   map restarts (timers (snd (rpcHeartbeat (Cb 5) active_world))) = [1, 1] \<and>
   trace (snd (rpcHeartbeat (Cb 5) active_world)) =
     trace active_world @ [TimerRefresh 0, TimerRefresh 1, Call (Cb 5) []] \<and>
   reachable (boot test_session) \<and> rpcStream (self (boot test_session)) = None \<and>
   fst (rpcHeartbeat (Cb 6) (boot test_session)) = Inl (TypeError ''refresh'')"
proof -
  note f = active_world_facts
  have r: "reachable (boot test_session)"
    by (rule reachable.identifying [OF test_session_constructed])
  have u: "rpcStream (self (boot test_session)) = None"
    by (simp add: boot_def test_session_def)
  from rpcHeartbeat_refreshes [OF r, of "Cb 6"] u
  have n: "fst (rpcHeartbeat (Cb 6) (boot test_session)) = Inl (TypeError ''refresh'')"
    by simp
  from rpcHeartbeat_refreshes [OF reachable_active_world, of "Cb 5"] f
  have "rpcHeartbeat (Cb 5) active_world =
          (Inr (),
           active_world\<lparr>timers := (timers active_world)[0 := wd_refresh (timers active_world ! 0),
                                            1 := wd_refresh (timers active_world ! 1)],
             trace := trace active_world @ [TimerRefresh 0, TimerRefresh 1, Call (Cb 5) []]\<rparr>)"
    by auto
  then show ?thesis using reachable_active_world f r u n
    by (simp add: active_world_def wd_refresh_def)
qed

text \<open>
  C4 as stated ("always succeeds, including when the session is not Active") fails on a
  session that has not created a stream: the handler throws.
\<close>

theorem rpcHeartbeat_unconnected_counterexample:
  "rpcHeartbeat (Cb 5) (boot test_session) = (Inl (TypeError ''refresh''), boot test_session)"
  by (simp add: rpcHeartbeat_null boot_def test_session_def)







text \<open>
  C8, as amended. For an outbound heartbeat in flight, a failed answer does nothing in any
  reachable world. A successful answer that arrives after \<^verbatim>\<open>close\<close> has destroyed the
  watchdogs and before the transport has reported the closure is not guarded: the closure
  calls \<open>refresh\<close> on the two destroyed watchdogs. By the contract of the watchdog these
  calls change no timer, and nothing is thrown. Once the transport has reported the
  closure, no successful answer arrives any more.
\<close>

theorem heartbeat_reply_after_close:
  assumes "reachable w"
  shows "(0 < hbCalls w \<longrightarrow>
            step (HeartbeatReply (Some e)) w = Some (None, w\<lparr>hbCalls := hbCalls w - 1\<rparr>)) \<and>
         (0 < hbCalls w \<and> lifecycle_of w = Closing \<longrightarrow>
            (\<exists>t h. timeout (self w) = Some t \<and> heartbeat (self w) = Some h \<and>
               status (timers w ! t) \<noteq> Armed \<and> status (timers w ! h) \<noteq> Armed \<and>
               step (HeartbeatReply None) w =
                 Some (None, w\<lparr>hbCalls := hbCalls w - 1,
                                trace := trace w @ [TimerRefresh t, TimerRefresh h]\<rparr>))) \<and>
         (rpcStream (self w) = None \<longrightarrow> step (HeartbeatReply None) w = None)"
proof -
  note c = reachable_consistent [OF assms]
  have e: "step (HeartbeatReply (Some e)) w = Some (None, w\<lparr>hbCalls := hbCalls w - 1\<rparr>)"
    if "0 < hbCalls w"
    using that by (simp add: heartbeat_reply_err thrown_def)
  have n: "step (HeartbeatReply None) w = None" if "rpcStream (self w) = None"
    using that c by (simp add: consistent_unbound)
  have cl: "\<exists>t h. timeout (self w) = Some t \<and> heartbeat (self w) = Some h \<and>
               status (timers w ! t) \<noteq> Armed \<and> status (timers w ! h) \<noteq> Armed \<and>
               step (HeartbeatReply None) w =
                 Some (None, w\<lparr>hbCalls := hbCalls w - 1,
                                trace := trace w @ [TimerRefresh t, TimerRefresh h]\<rparr>)"
    if p: "0 < hbCalls w" and l: "lifecycle_of w = Closing"
  proof -
    from l have b: "rpcStream (self w) \<noteq> None" and g: "closing w \<noteq> None"
      by (auto simp: lifecycle_of_def split: option.splits if_splits)
    from c b show ?thesis
    proof (elim consistent_boundD)
      fix t h cb
      assume f: "timeout (self w) = Some t" "heartbeat (self w) = Some h"
        "closedCb w = Some cb"
        "(status (timers w ! t) = Armed) = (closing w = None)"
        "(status (timers w ! h) = Armed) = (closing w = None)"
      with g have d: "status (timers w ! t) \<noteq> Armed" "status (timers w ! h) \<noteq> Armed"
        by simp_all
      then have "(timers w)[t := wd_refresh (timers w ! t),
          h := wd_refresh ((timers w)[t := wd_refresh (timers w ! t)] ! h)] = timers w"
        by (simp add: wd_refresh_def)
      with f d p show ?thesis
        by (simp add: heartbeat_reply_ok [where t = t and h = h] thrown_def)
    qed
  qed
  from e n cl show ?thesis by blast
qed

theorem heartbeat_reply_after_close_witness:
  "reachable hb_closing_world \<and> 0 < hbCalls hb_closing_world \<and>
   lifecycle_of hb_closing_world = Closing \<and>
   step (HeartbeatReply (Some (Error ''closed''))) hb_closing_world =
     Some (None, hb_closing_world\<lparr>hbCalls := 0\<rparr>) \<and>
   step (HeartbeatReply None) hb_closing_world =
     Some (None, hb_closing_world\<lparr>hbCalls := 0,
        trace := trace hb_closing_world @ [TimerRefresh 0, TimerRefresh 2]\<rparr>) \<and>
   reachable (after [RpcClosed LocalCloseCompleted] hb_closing_world) \<and>
   0 < hbCalls (after [RpcClosed LocalCloseCompleted] hb_closing_world) \<and>
   rpcStream (self (after [RpcClosed LocalCloseCompleted] hb_closing_world)) = None \<and>
   step (HeartbeatReply None) (after [RpcClosed LocalCloseCompleted] hb_closing_world) = None \<and>
   map_option fst (step (HeartbeatReply (Some (Error ''closed'')))
     (after [RpcClosed LocalCloseCompleted] hb_closing_world)) = Some None"
proof -
  let ?v = "after [RpcClosed LocalCloseCompleted] hb_closing_world"
  have g: "0 < hbCalls ?v" "rpcStream (self ?v) = None"
    by (simp_all add: hb_closing_world_eq after_def stream_closed_def onRpcClose_bound seq_def
        and_then_def call_def emit_def thrown_def active_world_def test_session_def)
  have rv: "reachable ?v"
    by (rule reachable_after [OF reachable_hb_closing_world])
  from heartbeat_reply_after_close [OF rv, of "Error ''closed''"] g
  have tv: "step (HeartbeatReply None) ?v = None"
    "map_option fst (step (HeartbeatReply (Some (Error ''closed''))) ?v) = Some None"
    by simp_all
  have f: "0 < hbCalls hb_closing_world" "lifecycle_of hb_closing_world = Closing"
    "timeout (self hb_closing_world) = Some 0" "heartbeat (self hb_closing_world) = Some 2"
    "hbCalls hb_closing_world - 1 = 0"
    by (simp_all add: hb_closing_world_eq lifecycle_of_def active_world_def test_session_def)
  from heartbeat_reply_after_close [OF reachable_hb_closing_world, of "Error ''closed''"] f
  show ?thesis using reachable_hb_closing_world rv g tv by auto
qed

text \<open>
  C8 as stated ("no refresh is ever applied to a destroyed watchdog") fails: after
  \<^verbatim>\<open>createStream\<close>, one expiry of the heartbeat watchdog and \<^verbatim>\<open>close()\<close>, all three timer
  objects are destroyed, the stream is still open, and a successful answer to the heartbeat
  in flight calls \<open>refresh\<close> on the destroyed watchdogs 0 and 2.
\<close>

theorem heartbeat_reply_after_teardown_counterexample:
  "outcomes [CreateStream (Some (Cb 1)), Fire 1, Close None None, HeartbeatReply None]
     (boot test_session) = Some [None, None, None, None] \<and>
   map status (timers (after [CreateStream (Some (Cb 1)), Fire 1, Close None None]
     (boot test_session))) = [Destroyed, Destroyed, Destroyed] \<and>
   trace (after [CreateStream (Some (Cb 1)), Fire 1, Close None None, HeartbeatReply None]
     (boot test_session)) =
     [RpcCreateStream 0, TimerNew 0 (Given (JNum 100)) OnTimeout, TimerNew 1 (Millis 50) OnHeartbeat,
      TimerDestroy 1, TimerNew 2 (Millis 50) OnHeartbeat, RpcHeartbeat,
      TimerDestroy 0, TimerDestroy 2, RpcClose None Noop None,
      TimerRefresh 0, TimerRefresh 2]"
  by (simp add: after_def createStream_new fire_def Let_def onHeartbeat_bound close_bound
      heartbeat_reply_ok boot_def thrown_def wd_destroy_def wd_refresh_def or_noop_def
      test_session_def floor_half_num)



text \<open>
  C10. A falsy \<^verbatim>\<open>opts.timeout\<close> (absent, 0, NaN, null, false, the empty string) gives
  \<open>timeoutMs = 20000\<close> in both classes, also when \<open>opts\<close> itself is absent; a truthy one
  is stored as it is, whatever it is (no check that it is a positive integer); and whether
  the identifying constructor throws depends on the device fields alone, never on the
  timeout.
\<close>

theorem constructor_timeout_default:
  "(\<not> truthy (opt_timeout p) \<longrightarrow>
      timeoutMs (UpgradeProtocol (Some p)) = JNum 20000 \<and>
      (\<forall>s. SyncProtocol (Some p) = Inr s \<longrightarrow> timeoutMs s = JNum 20000)) \<and>
   timeoutMs (UpgradeProtocol None) = JNum 20000 \<and>
   (truthy (opt_timeout p) \<longrightarrow>
      timeoutMs (UpgradeProtocol (Some p)) = opt_timeout p \<and>
      (\<forall>s. SyncProtocol (Some p) = Inr s \<longrightarrow> timeoutMs s = opt_timeout p)) \<and>
   ((\<exists>s. SyncProtocol (Some p) = Inr s) \<longleftrightarrow>
      truthy (opt_deviceName p) \<and> truthy (opt_deviceType p)) \<and>
   ((\<exists>s. SyncProtocol (Some (p\<lparr>opt_timeout := t\<rparr>)) = Inr s) \<longleftrightarrow>
      (\<exists>s. SyncProtocol (Some p) = Inr s))"
  by (simp add: SyncProtocol_ok UpgradeProtocol_def js_or_def Let_def empty_opts_def)

theorem constructor_timeout_default_witness:
  "\<not> truthy (JNum 0) \<and> truthy (JNum (- 5)) \<and>
   timeoutMs (UpgradeProtocol (Some \<lparr>opt_timeout = JNum 0, opt_deviceName = JStr ''phone'',
       opt_deviceType = JStr ''mobile''\<rparr>)) = JNum 20000 \<and>
   SyncProtocol (Some \<lparr>opt_timeout = JNum 0, opt_deviceName = JStr ''phone'',
       opt_deviceType = JStr ''mobile''\<rparr>) =
     Inr \<lparr>rpcStream = None, timeoutMs = JNum 20000, deviceName = JStr ''phone'',
          deviceType = JStr ''mobile'', timeout = None, heartbeat = None\<rparr> \<and>
   timeoutMs (UpgradeProtocol (Some \<lparr>opt_timeout = JNum (- 5), opt_deviceName = JUndefined,
       opt_deviceType = JUndefined\<rparr>)) = JNum (- 5)"
  using constructor_timeout_default
    [of "\<lparr>opt_timeout = JNum 0, opt_deviceName = JStr ''phone'', opt_deviceType = JStr ''mobile''\<rparr>"]
    constructor_timeout_default
    [of "\<lparr>opt_timeout = JNum (- 5), opt_deviceName = JUndefined, opt_deviceType = JUndefined\<rparr>"]
  by (simp add: SyncProtocol_ok js_or_def)

end
